theory Spec2Isabelle
  imports Main "HOL-Library.Word"
begin

section \<open>The flash-write engine of flasher.py\<close>

text \<open>
  A shallow embedding of \<^verbatim>\<open>Args\<close> and of the methods \<^verbatim>\<open>begin_flash\<close>,
  \<^verbatim>\<open>write_flash\<close> and \<^verbatim>\<open>_write_flash\<close> of \<^verbatim>\<open>ESP8266Flasher\<close>.

  The device session (the object \<^verbatim>\<open>esp\<close>), hashlib, zlib and the helpers imported from
  esptool are not part of the file: they are parameters of the model. Every command sent
  to the session, every Qt signal emitted and the stdout lines of the verification step
  are appended, in program order, to one trace. The other \<^verbatim>\<open>print\<close> calls and the
  wall-clock timing (floating point, used for log text only) are left out; the one of
  them that can raise, the percentage in the progress line, is kept as a raise.
\<close>

subsection \<open>Data\<close>

type_synonym byte = "8 word"
type_synonym bytes = "byte list"

text \<open>
  Python exceptions. \<open>FatalError\<close>, \<open>NotImplementedInROMError\<close> and \<open>SerialException\<close>
  are raised inside esptool and pyserial, where these names are bound. In flasher.py
  itself the import at line 20 binds neither \<^verbatim>\<open>FatalError\<close> nor
  \<^verbatim>\<open>NotImplementedInROMError\<close>, so evaluating either name there raises \<open>NameError\<close>.
\<close>

datatype exc =
    NameError string
  | AttributeError string
  | ZeroDivisionError
  | SerialException
  | NotImplementedInROMError
  | FatalError string
  | OtherError string

record Args =
  compress :: "bool option"
  no_compress :: bool
  no_stub :: bool
  encrypt :: bool
  flash_size :: string
  flash_mode :: string
  flash_freq :: string
  addr_filename :: "(int \<times> bytes) list"

text \<open>The keys of the \<^verbatim>\<open>firmware\<close> dict that the flasher reads.\<close>

record firmware =
  port :: string
  body :: bytes
  mode :: string
  speed :: string

text \<open>Commands sent to the device session, with their arguments (timeouts left out).\<close>

datatype call =
    DetectChip string int
  | RunStub
  | DetectFlashSize
  | FlashSetParameters int
  | FlashBegin nat int
  | FlashDeflBegin nat nat int
  | FlashBlock bytes nat
  | FlashDeflBlock bytes nat
  | FlashEncryptBlock bytes nat
  | FlashMd5sum int nat
  | FlashFinish bool
  | FlashDeflFinish bool
  | CloseSerial

text \<open>The signals \<^verbatim>\<open>flash_progress_sig\<close>, \<^verbatim>\<open>flash_result_sig\<close> and \<^verbatim>\<open>console_sig\<close>.\<close>

datatype event =
    FlashProgress nat nat
  | FlashResult int string
  | Console string

datatype obs = Call call | Emit event | Print string

text \<open>
  The session object: its two constants and how the device answers. \<open>raises c\<close> is the
  exception command \<open>c\<close> ends with, if any; \<open>num_blocks\<close> is what the two begin commands
  return, \<open>md5sum_reply\<close> what \<^verbatim>\<open>flash_md5sum\<close> returns, and \<open>detected_size\<close> what
  esptool's \<^verbatim>\<open>detect_flash_size\<close> leaves in \<^verbatim>\<open>args.flash_size\<close>.
\<close>

record esp =
  FLASH_WRITE_SIZE :: nat
  IS_STUB :: bool
  raises :: "call \<Rightarrow> exc option"
  num_blocks :: "call \<Rightarrow> nat"
  md5sum_reply :: "int \<Rightarrow> nat \<Rightarrow> string"
  detected_size :: "string \<Rightarrow> string"

text \<open>The library functions the flasher calls: hashlib, zlib, esptool.\<close>

record lib =
  md5_hexdigest :: "bytes \<Rightarrow> string"
  zlib_compress :: "bytes \<Rightarrow> bytes"
  update_image_flash_params :: "int \<Rightarrow> Args \<Rightarrow> bytes \<Rightarrow> exc + bytes"
  flash_size_bytes :: "string \<Rightarrow> exc + int"
  detect_chip :: "string \<Rightarrow> int \<Rightarrow> exc + esp"
  run_stub :: "esp \<Rightarrow> exc + esp"

text \<open>
  The flasher object: \<^verbatim>\<open>self._is_abort\<close>, the number of \<^verbatim>\<open>processEvents\<close> calls made so
  far, and the trace.
\<close>

record state =
  is_abort :: bool
  polls :: nat
  trace :: "obs list"

definition FLASH_BAUD :: int where
  "FLASH_BAUD = 576000"

text \<open>The three message texts of the flasher, as their UTF-8 bytes.\<close>

definition msg_aborted :: string where
  "msg_aborted = [CHR 0xE5, CHR 0xB7, CHR 0xB2, CHR 0xE7, CHR 0xBB, CHR 0x88, CHR 0xE6, CHR 0xAD,
      CHR 0xA2]"

definition msg_success :: string where
  "msg_success = [CHR 0xE6, CHR 0x88, CHR 0x90, CHR 0xE5, CHR 0x8A, CHR 0x9F]"

definition msg_serial_failed :: string where
  "msg_serial_failed = [CHR 0xE4, CHR 0xB8, CHR 0xB2, CHR 0xE5, CHR 0x8F, CHR 0xA3, CHR 0xE8, CHR 0xAF,
      CHR 0xBB, CHR 0xE5, CHR 0x86, CHR 0x99, CHR 0xE5, CHR 0xA4, CHR 0xB1, CHR 0xE8,
      CHR 0xB4, CHR 0xA5]"

definition msg_serial_busy :: string where
  "msg_serial_busy = msg_serial_failed @ [CHR 0xEF, CHR 0xBC, CHR 0x8C, CHR 0xE8, CHR 0xAF, CHR 0xB7, CHR 0xE6, CHR 0xA3,
      CHR 0x80, CHR 0xE6, CHR 0x9F, CHR 0xA5, CHR 0xE6, CHR 0x98, CHR 0xAF, CHR 0xE5,
      CHR 0x90, CHR 0xA6, CHR 0xE6, CHR 0x9C, CHR 0x89, CHR 0xE5, CHR 0x85, CHR 0xB6,
      CHR 0xE4, CHR 0xBB, CHR 0x96, CHR 0xE7, CHR 0xA8, CHR 0x8B, CHR 0xE5, CHR 0xBA,
      CHR 0x8F, CHR 0xE5, CHR 0x8D, CHR 0xA0, CHR 0xE7, CHR 0x94, CHR 0xA8, CHR 0xE4,
      CHR 0xBA, CHR 0x86, CHR 0xE6, CHR 0x8C, CHR 0x87, CHR 0xE5, CHR 0xAE, CHR 0x9A,
      CHR 0xE4, CHR 0xB8, CHR 0xB2, CHR 0xE5, CHR 0x8F, CHR 0xA3]"

subsection \<open>Args\<close>

definition Args_init :: Args where
  "Args_init = \<lparr>compress = None, no_compress = False, no_stub = False, encrypt = False,
     flash_size = ''detect'', flash_mode = '''', flash_freq = '''', addr_filename = []\<rparr>"

definition set_body :: "Args \<Rightarrow> int \<Rightarrow> bytes \<Rightarrow> Args" where
  "set_body args addr data = args\<lparr>addr_filename := addr_filename args @ [(addr, data)]\<rparr>"

subsection \<open>Effects\<close>

definition record_obs :: "obs \<Rightarrow> state \<Rightarrow> state" where
  "record_obs x st = st\<lparr>trace := trace st @ [x]\<rparr>"

definition emit :: "event \<Rightarrow> state \<Rightarrow> state" where
  "emit ev st = record_obs (Emit ev) st"

definition print :: "string \<Rightarrow> state \<Rightarrow> state" where
  "print s st = record_obs (Print s) st"

text \<open>A command to the session: it is sent, then it returns or raises.\<close>

definition command :: "esp \<Rightarrow> call \<Rightarrow> state \<Rightarrow> (exc + unit) \<times> state" where
  "command dev c st =
     (case raises dev c of
        Some e \<Rightarrow> (Inl e, record_obs (Call c) st)
      | None \<Rightarrow> (Inr (), record_obs (Call c) st))"

text \<open>
  \<^verbatim>\<open>QApplication.processEvents()\<close> runs the slots queued for the worker thread; of them
  only \<^verbatim>\<open>abort_flash\<close> is modelled. \<open>pend k\<close> says that an abort request is delivered
  by the call made when \<open>polls\<close> is \<open>k\<close>.
\<close>

definition processEvents :: "(nat \<Rightarrow> bool) \<Rightarrow> state \<Rightarrow> state" where
  "processEvents pend st = st\<lparr>is_abort := is_abort st \<or> pend (polls st), polls := Suc (polls st)\<rparr>"

subsection \<open>\<^verbatim>\<open>_write_flash\<close>: compression flag and size check (lines 98 to 111)\<close>

definition resolve_compress :: "Args \<Rightarrow> Args" where
  "resolve_compress args =
     (if compress args = None \<and> \<not> no_compress args
      then args\<lparr>compress := Some (\<not> no_stub args)\<rparr> else args)"

text \<open>Python's truth value of \<^verbatim>\<open>args.compress\<close>: \<^verbatim>\<open>None\<close> and \<^verbatim>\<open>False\<close> are false.\<close>

definition truthy :: "bool option \<Rightarrow> bool" where
  "truthy c = (c = Some True)"

text \<open>
  The loop of lines 105 to 111. \<^verbatim>\<open>raise FatalError(...)\<close> evaluates the unbound name
  \<^verbatim>\<open>FatalError\<close> first, so what leaves the function is a \<open>NameError\<close>.
\<close>

fun check_fit :: "int \<Rightarrow> (int \<times> bytes) list \<Rightarrow> exc + unit" where
  "check_fit flash_end [] = Inr ()"
| "check_fit flash_end ((address, argfile) # rest) =
     (if address + int (length argfile) > flash_end then Inl (NameError ''FatalError'')
      else check_fit flash_end rest)"

definition verify_fit :: "lib \<Rightarrow> Args \<Rightarrow> exc + unit" where
  "verify_fit l args =
     (if flash_size args \<noteq> ''keep'' then
        (case flash_size_bytes l (flash_size args) of
           Inl e \<Rightarrow> Inl e
         | Inr flash_end \<Rightarrow> check_fit flash_end (addr_filename args))
      else Inr ())"

subsection \<open>Padding\<close>

text \<open>
  Modelled from the spec: \<^verbatim>\<open>pad_to\<close> is imported from esptool and its body is not in
  flasher.py; the call at line 117 passes the data and the alignment only. The spec has
  it pad the length up to a multiple of the alignment with zero bytes appended at the end.
\<close>

definition pad_to :: "bytes \<Rightarrow> nat \<Rightarrow> bytes" where
  "pad_to data alignment =
     (let pad_mod = length data mod alignment
      in if pad_mod \<noteq> 0 then data @ replicate (alignment - pad_mod) 0 else data)"

definition alignment_unit :: "Args \<Rightarrow> nat" where
  "alignment_unit args = (if encrypt args then 32 else 4)"

subsection \<open>The block loop (lines 136 to 158)\<close>

record transfer =
  image :: bytes
  seq :: nat
  written :: nat

datatype step = Raise exc | Return | Next transfer

definition block_call :: "bool \<Rightarrow> bool \<Rightarrow> bytes \<Rightarrow> nat \<Rightarrow> call" where
  "block_call cmp enc block sq =
     (if cmp then FlashDeflBlock block sq
      else if enc then FlashEncryptBlock block sq else FlashBlock block sq)"

definition next_block :: "esp \<Rightarrow> bool \<Rightarrow> bytes \<Rightarrow> bytes" where
  "next_block dev cmp img =
     (let block = take (FLASH_WRITE_SIZE dev) img
      in if cmp then block
         else block @ replicate (FLASH_WRITE_SIZE dev - length block) 0xFF)"

text \<open>
  One pass through the body of the \<^verbatim>\<open>while\<close> loop. \<open>blocks\<close> is only used for the
  percentage of the progress line, \<^verbatim>\<open>100 * (seq + 1) // blocks\<close>.
\<close>

definition loop_body ::
  "(nat \<Rightarrow> bool) \<Rightarrow> esp \<Rightarrow> bool \<Rightarrow> bool \<Rightarrow> nat \<Rightarrow> transfer \<Rightarrow> state \<Rightarrow> step \<times> state" where
  "loop_body pend dev cmp enc blocks tr st =
     (let st1 = processEvents pend st in
      if is_abort st1 then
        (case command dev CloseSerial (emit (FlashResult 1 msg_aborted) st1) of
           (Inl e, st2) \<Rightarrow> (Raise e, st2)
         | (Inr u, st2) \<Rightarrow> (Return, st2))
      else if blocks = 0 then (Raise ZeroDivisionError, st1)
      else
        (let block = next_block dev cmp (image tr) in
         case command dev (block_call cmp enc block (seq tr)) st1 of
           (Inl e, st2) \<Rightarrow> (Raise e, st2)
         | (Inr u, st2) \<Rightarrow>
             (Next \<lparr>image = drop (FLASH_WRITE_SIZE dev) (image tr),
                    seq = seq tr + 1,
                    written = written tr + length block\<rparr>,
              emit (FlashProgress (written tr + length block) (length (image tr))) st2)))"

text \<open>
  How the loop is left: by running out of image, or by the \<^verbatim>\<open>return\<close> of line 141.
  Python returns \<^verbatim>\<open>None\<close> from \<^verbatim>\<open>_write_flash\<close> either way; the model keeps the two
  apart only to know whether the code after the loop runs.
\<close>

datatype exit = Completed | Aborted

text \<open>
  The loop does not end when \<^verbatim>\<open>FLASH_WRITE_SIZE\<close> is 0 and no abort arrives: \<open>None\<close>.
\<close>

partial_function (option) write_loop ::
  "(nat \<Rightarrow> bool) \<Rightarrow> esp \<Rightarrow> bool \<Rightarrow> bool \<Rightarrow> nat \<Rightarrow> transfer \<Rightarrow> state
     \<Rightarrow> ((exc + exit \<times> transfer) \<times> state) option" where
  "write_loop pend dev cmp enc blocks tr st =
     (if length (image tr) > 0 then
        (case loop_body pend dev cmp enc blocks tr st of
           (Raise e, st') \<Rightarrow> Some (Inl e, st')
         | (Return, st') \<Rightarrow> Some (Inr (Aborted, tr), st')
         | (Next tr', st') \<Rightarrow> write_loop pend dev cmp enc blocks tr' st')
      else Some (Inr (Completed, tr), st))"

declare write_loop.simps [code]

subsection \<open>One image (lines 115 to 181)\<close>

text \<open>
  Lines 170 to 181. Whatever \<^verbatim>\<open>flash_md5sum\<close> raises, the handler search evaluates
  the expression of \<^verbatim>\<open>except NotImplementedInROMError\<close>, an unbound name, and the
  \<open>NameError\<close> of that replaces the exception in flight. The same happens to the
  \<open>NameError\<close> of \<^verbatim>\<open>raise FatalError(...)\<close> at line 177, which sits inside the
  \<^verbatim>\<open>try\<close> block.
\<close>

definition verify :: "lib \<Rightarrow> esp \<Rightarrow> int \<Rightarrow> nat \<Rightarrow> string \<Rightarrow> state \<Rightarrow> (exc + unit) \<times> state" where
  "verify l dev address uncsize calcmd5 st =
     (case command dev (FlashMd5sum address uncsize) st of
        (Inl e, st1) \<Rightarrow> (Inl (NameError ''NotImplementedInROMError''), st1)
      | (Inr u, st1) \<Rightarrow>
          (let res = md5sum_reply dev address uncsize in
           if res \<noteq> calcmd5 then
             (Inl (NameError ''NotImplementedInROMError''),
              print (''MD5 of 0xFF is '' @ md5_hexdigest l (replicate uncsize 0xFF))
                (print (''Flash md5: '' @ res)
                  (print (''File  md5: '' @ calcmd5) st1)))
           else (Inr (), print ''Hash of data verified.'' st1)))"

text \<open>Lines 124 to 131: compress if asked to, and open the transfer.\<close>

definition open_transfer ::
  "lib \<Rightarrow> esp \<Rightarrow> bool \<Rightarrow> int \<Rightarrow> bytes \<Rightarrow> state \<Rightarrow> (exc + bytes \<times> nat) \<times> state" where
  "open_transfer l dev cmp address img st =
     (let uncsize = length img in
      if cmp then
        (let uncimage = img; img = zlib_compress l uncimage in
         if length img = 0 then (Inl ZeroDivisionError, st)
         else
           (case command dev (FlashDeflBegin uncsize (length img) address) st of
              (Inl e, st1) \<Rightarrow> (Inl e, st1)
            | (Inr u, st1) \<Rightarrow>
                (Inr (img, num_blocks dev (FlashDeflBegin uncsize (length img) address)), st1)))
      else
        (case command dev (FlashBegin uncsize address) st of
           (Inl e, st1) \<Rightarrow> (Inl e, st1)
         | (Inr u, st1) \<Rightarrow> (Inr (img, num_blocks dev (FlashBegin uncsize address)), st1)))"

text \<open>
  Lines 118 to 181 of the body of the \<^verbatim>\<open>for\<close> loop: what is done with the padded
  image \<open>img\<close>. Every \<^verbatim>\<open>argfile\<close> is a \<^verbatim>\<open>BytesIO\<close> (\<^verbatim>\<open>set_body\<close> is the only place that
  fills \<^verbatim>\<open>addr_filename\<close>), and a \<^verbatim>\<open>BytesIO\<close> has no attribute \<^verbatim>\<open>name\<close>: the warning
  of line 119 raises before the \<^verbatim>\<open>continue\<close> is reached.
\<close>

definition transfer_image ::
  "lib \<Rightarrow> (nat \<Rightarrow> bool) \<Rightarrow> esp \<Rightarrow> Args \<Rightarrow> int \<Rightarrow> bytes \<Rightarrow> state
     \<Rightarrow> ((exc + exit) \<times> state) option" where
  "transfer_image l pend dev args address img st =
     (if length img = 0 then Some (Inl (AttributeError ''name''), st)
      else
        (case update_image_flash_params l address args img of
           Inl e \<Rightarrow> Some (Inl e, st)
         | Inr img \<Rightarrow>
             (let calcmd5 = md5_hexdigest l img; uncsize = length img in
              case open_transfer l dev (truthy (compress args)) address img st of
                (Inl e, st1) \<Rightarrow> Some (Inl e, st1)
              | (Inr (img, blocks), st1) \<Rightarrow>
                  (case write_loop pend dev (truthy (compress args)) (encrypt args) blocks
                          \<lparr>image = img, seq = 0, written = 0\<rparr> st1 of
                     None \<Rightarrow> None
                   | Some (Inl e, st2) \<Rightarrow> Some (Inl e, st2)
                   | Some (Inr (Aborted, tr), st2) \<Rightarrow> Some (Inr Aborted, st2)
                   | Some (Inr (Completed, tr), st2) \<Rightarrow>
                       (if \<not> encrypt args then
                          (case verify l dev address uncsize calcmd5 st2 of
                             (Inl e, st3) \<Rightarrow> Some (Inl e, st3)
                           | (Inr u, st3) \<Rightarrow> Some (Inr Completed, st3))
                        else Some (Inr Completed, st2))))))"

text \<open>
  The body of the \<^verbatim>\<open>for\<close> loop of line 114: line 117 reads the whole \<^verbatim>\<open>argfile\<close> (it
  is at position 0, so it is modelled by its content) and pads it, then the rest of the
  body works on the padded image.
\<close>

definition write_image ::
  "lib \<Rightarrow> (nat \<Rightarrow> bool) \<Rightarrow> esp \<Rightarrow> Args \<Rightarrow> int \<Rightarrow> bytes \<Rightarrow> state
     \<Rightarrow> ((exc + exit) \<times> state) option" where
  "write_image l pend dev args address argfile st =
     (let img = pad_to argfile (alignment_unit args) in
      transfer_image l pend dev args address img st)"

fun write_images ::
  "lib \<Rightarrow> (nat \<Rightarrow> bool) \<Rightarrow> esp \<Rightarrow> Args \<Rightarrow> (int \<times> bytes) list \<Rightarrow> state
     \<Rightarrow> ((exc + exit) \<times> state) option" where
  "write_images l pend dev args [] st = Some (Inr Completed, st)"
| "write_images l pend dev args ((address, argfile) # rest) st =
     (case write_image l pend dev args address argfile st of
        None \<Rightarrow> None
      | Some (Inl e, st1) \<Rightarrow> Some (Inl e, st1)
      | Some (Inr Aborted, st1) \<Rightarrow> Some (Inr Aborted, st1)
      | Some (Inr Completed, st1) \<Rightarrow> write_images l pend dev args rest st1)"

text \<open>Lines 185 to 192.\<close>

definition leave :: "esp \<Rightarrow> Args \<Rightarrow> state \<Rightarrow> (exc + unit) \<times> state" where
  "leave dev args st =
     (if IS_STUB dev then
        (case command dev (FlashBegin 0 0) st of
           (Inl e, st1) \<Rightarrow> (Inl e, st1)
         | (Inr u, st1) \<Rightarrow>
             (if truthy (compress args) then command dev (FlashDeflFinish False) st1
              else command dev (FlashFinish False) st1))
      else (Inr (), st))"

subsection \<open>The three methods\<close>

text \<open>\<^verbatim>\<open>_write_flash\<close> (an Isabelle name cannot start with an underscore).\<close>

definition write_all ::
  "lib \<Rightarrow> (nat \<Rightarrow> bool) \<Rightarrow> esp \<Rightarrow> Args \<Rightarrow> state \<Rightarrow> ((exc + unit) \<times> state) option" where
  \<comment> \<open>lines 113 to 192: the images, then the closing commands\<close>
  "write_all l pend dev args st =
     (case write_images l pend dev args (addr_filename args) st of
        None \<Rightarrow> None
      | Some (Inl e, st1) \<Rightarrow> Some (Inl e, st1)
      | Some (Inr Aborted, st1) \<Rightarrow> Some (Inr (), st1)
      | Some (Inr Completed, st1) \<Rightarrow> Some (leave dev args st1))"

definition underscore_write_flash ::
  "lib \<Rightarrow> (nat \<Rightarrow> bool) \<Rightarrow> esp \<Rightarrow> Args \<Rightarrow> state \<Rightarrow> ((exc + unit) \<times> state) option" where
  "underscore_write_flash l pend dev args0 st =
     (let args = resolve_compress args0 in
      case verify_fit l args of
        Inl e \<Rightarrow> Some (Inl e, st)
      | Inr u \<Rightarrow> write_all l pend dev args st)"

text \<open>Lines 78 to 82 of \<^verbatim>\<open>write_flash\<close>.\<close>

definition write_flash_args :: "firmware \<Rightarrow> Args" where
  "write_flash_args fw =
     (set_body Args_init 0 (body fw))\<lparr>flash_mode := mode fw, flash_freq := speed fw\<rparr>"

text \<open>
  Lines 85 to 89. esptool's \<^verbatim>\<open>detect_flash_size\<close> talks to the device and assigns
  \<^verbatim>\<open>args.flash_size\<close>.
\<close>

definition configure_flash_size :: "lib \<Rightarrow> esp \<Rightarrow> Args \<Rightarrow> state \<Rightarrow> (exc + Args) \<times> state" where
  "configure_flash_size l dev args st =
     (case command dev DetectFlashSize st of
        (Inl e, st1) \<Rightarrow> (Inl e, st1)
      | (Inr u, st1) \<Rightarrow>
          (let args1 = args\<lparr>flash_size := detected_size dev (flash_size args)\<rparr> in
           if flash_size args1 \<noteq> ''keep'' then
             (case flash_size_bytes l (flash_size args1) of
                Inl e \<Rightarrow> (Inl e, st1)
              | Inr n \<Rightarrow>
                  (case command dev (FlashSetParameters n) st1 of
                     (Inl e, st2) \<Rightarrow> (Inl e, st2)
                   | (Inr u, st2) \<Rightarrow> (Inr args1, st2)))
           else (Inr args1, st1)))"

definition write_flash ::
  "lib \<Rightarrow> (nat \<Rightarrow> bool) \<Rightarrow> esp \<Rightarrow> firmware \<Rightarrow> state \<Rightarrow> ((exc + unit) \<times> state) option" where
  "write_flash l pend dev fw st =
     (case configure_flash_size l dev (write_flash_args fw) st of
        (Inl e, st1) \<Rightarrow> Some (Inl e, st1)
      | (Inr args, st1) \<Rightarrow> underscore_write_flash l pend dev args st1)"

text \<open>
  The handler of lines 68 to 71; it catches \<^verbatim>\<open>SerialException\<close> only.
\<close>

definition connect_failed :: "exc \<Rightarrow> state \<Rightarrow> (exc + unit) \<times> state" where
  "connect_failed e st =
     (if e = SerialException
      then (Inr (), emit (FlashResult 1 msg_serial_failed) (emit (Console msg_serial_busy) st))
      else (Inl e, st))"

definition begin_flash ::
  "lib \<Rightarrow> (nat \<Rightarrow> bool) \<Rightarrow> firmware \<Rightarrow> state \<Rightarrow> ((exc + unit) \<times> state) option" where
  "begin_flash l pend fw st =
     (let st0 = record_obs (Call (DetectChip (port fw) FLASH_BAUD)) (st\<lparr>is_abort := False\<rparr>) in
      case detect_chip l (port fw) FLASH_BAUD of
        Inl e \<Rightarrow> Some (connect_failed e st0)
      | Inr rom \<Rightarrow>
          (let st1 = record_obs (Call RunStub) st0 in
           case run_stub l rom of
             Inl e \<Rightarrow> Some (connect_failed e st1)
           | Inr dev \<Rightarrow>
               (case write_flash l pend dev fw st1 of
                  None \<Rightarrow> None
                | Some (Inl e, st2) \<Rightarrow> Some (Inl e, st2)
                | Some (Inr u, st2) \<Rightarrow>
                    Some (command dev CloseSerial (emit (FlashResult 0 msg_success) st2)))))"

subsection \<open>Reading a trace\<close>

text \<open>The progress signals of a trace, in order, as pairs of their two arguments.\<close>

fun progress :: "obs list \<Rightarrow> (nat \<times> nat) list" where
  "progress [] = []"
| "progress (Emit (FlashProgress w t) # xs) = (w, t) # progress xs"
| "progress (x # xs) = progress xs"

text \<open>The result signals of a trace, in order.\<close>

fun results :: "obs list \<Rightarrow> (int \<times> string) list" where
  "results [] = []"
| "results (Emit (FlashResult c m) # xs) = (c, m) # results xs"
| "results (x # xs) = results xs"

fun is_block_write :: "call \<Rightarrow> bool" where
  "is_block_write (FlashBlock d s) = True"
| "is_block_write (FlashDeflBlock d s) = True"
| "is_block_write (FlashEncryptBlock d s) = True"
| "is_block_write c = False"

fun block_bytes :: "call \<Rightarrow> bytes" where
  "block_bytes (FlashBlock d s) = d"
| "block_bytes (FlashDeflBlock d s) = d"
| "block_bytes (FlashEncryptBlock d s) = d"
| "block_bytes c = []"

text \<open>The block-write commands of a trace, in order.\<close>

fun block_writes :: "obs list \<Rightarrow> call list" where
  "block_writes [] = []"
| "block_writes (Call c # xs) =
     (if is_block_write c then c # block_writes xs else block_writes xs)"
| "block_writes (x # xs) = block_writes xs"

subsection \<open>Reference values for the block loop\<close>

text \<open>
  The number of bytes the loop sends for a transfer of \<open>n\<close> bytes: \<open>n\<close> itself when
  compressed, \<open>n\<close> rounded up to whole blocks otherwise.
\<close>

definition sent_size :: "esp \<Rightarrow> bool \<Rightarrow> nat \<Rightarrow> nat" where
  "sent_size dev cmp n =
     (if cmp then n
      else ((n + FLASH_WRITE_SIZE dev - 1) div FLASH_WRITE_SIZE dev) * FLASH_WRITE_SIZE dev)"

text \<open>Slice number \<open>s\<close> of an image, and the command that should carry it.\<close>

definition chunk :: "esp \<Rightarrow> bytes \<Rightarrow> nat \<Rightarrow> bytes" where
  "chunk dev img s = take (FLASH_WRITE_SIZE dev) (drop (s * FLASH_WRITE_SIZE dev) img)"

definition expected_block :: "esp \<Rightarrow> bool \<Rightarrow> bool \<Rightarrow> bytes \<Rightarrow> nat \<Rightarrow> call" where
  "expected_block dev cmp enc img s =
     (if cmp then FlashDeflBlock (chunk dev img s) s
      else if enc
        then FlashEncryptBlock
               (chunk dev img s @ replicate (FLASH_WRITE_SIZE dev - length (chunk dev img s)) 0xFF) s
        else FlashBlock
               (chunk dev img s @ replicate (FLASH_WRITE_SIZE dev - length (chunk dev img s)) 0xFF) s)"

subsection \<open>Concrete inputs\<close>

text \<open>
  A session with 4-byte blocks on which every command succeeds, one whose loader
  does not implement \<^verbatim>\<open>flash_md5sum\<close>, and one that reports another digest than the
  host's. hashlib and zlib are replaced by stand-ins (a
  constant digest, the identity); \<^verbatim>\<open>flash_size_bytes\<close> knows one size.
\<close>

definition blocks_for :: "call \<Rightarrow> nat" where
  "blocks_for c =
     (case c of
        FlashBegin n a \<Rightarrow> (n + 3) div 4
      | FlashDeflBegin u n a \<Rightarrow> (n + 3) div 4
      | _ \<Rightarrow> 0)"

definition stub4 :: esp where
  "stub4 = \<lparr>FLASH_WRITE_SIZE = 4, IS_STUB = True, raises = (\<lambda>c. None),
     num_blocks = blocks_for, md5sum_reply = (\<lambda>a n. ''d0''),
     detected_size = (\<lambda>s. if s = ''detect'' then ''1MB'' else s)\<rparr>"

definition stub4_no_md5 :: esp where
  "stub4_no_md5 = stub4\<lparr>raises :=
     (\<lambda>c. case c of FlashMd5sum a n \<Rightarrow> Some NotImplementedInROMError | _ \<Rightarrow> None)\<rparr>"

definition stub4_wrong_md5 :: esp where
  "stub4_wrong_md5 = stub4\<lparr>md5sum_reply := (\<lambda>a n. ''ff'')\<rparr>"

definition size_table :: "string \<Rightarrow> exc + int" where
  "size_table s = (if s = ''1MB'' then Inr 1048576 else Inl (FatalError ''Unknown size''))"

definition host :: "esp \<Rightarrow> lib" where
  "host dev = \<lparr>md5_hexdigest = (\<lambda>b. ''d0''), zlib_compress = (\<lambda>b. b),
     update_image_flash_params = (\<lambda>a args b. Inr b),
     flash_size_bytes = size_table,
     detect_chip = (\<lambda>p b. Inr dev), run_stub = (\<lambda>d. Inr dev)\<rparr>"

definition never :: "nat \<Rightarrow> bool" where
  "never k = False"

definition at_second_poll :: "nat \<Rightarrow> bool" where
  "at_second_poll k = (k = 1)"

definition idle :: state where
  "idle = \<lparr>is_abort = False, polls = 0, trace = []\<rparr>"

definition fw8 :: firmware where
  "fw8 = \<lparr>port = ''COM3'', body = [1, 2, 3, 4, 5, 6, 7, 8], mode = ''dio'', speed = ''40m''\<rparr>"

definition fw_big :: firmware where
  "fw_big = \<lparr>port = ''COM3'', body = replicate 1048577 0, mode = ''dio'', speed = ''40m''\<rparr>"

definition stub8 :: esp where
  "stub8 = stub4\<lparr>FLASH_WRITE_SIZE := 8\<rparr>"

definition plain_args :: Args where
  "plain_args = Args_init\<lparr>no_compress := True, flash_size := ''keep''\<rparr>"


text \<open>One image that ends three bytes past a 1 MB flash.\<close>

definition edge_args :: Args where
  "edge_args = set_body (Args_init\<lparr>flash_size := ''1MB''\<rparr>) 1048575 [1, 2, 3, 4]"

section \<open>Properties\<close>

subsection \<open>One pass through the loop body\<close>

lemma loop_body_Next:
  assumes "loop_body pend dev cmp enc blocks tr st = (Next tr', st')"
  shows "tr' = \<lparr>image = drop (FLASH_WRITE_SIZE dev) (image tr), seq = seq tr + 1,
                 written = written tr + length (next_block dev cmp (image tr))\<rparr>
         \<and> trace st' = trace st @
              [Call (block_call cmp enc (next_block dev cmp (image tr)) (seq tr)),
               Emit (FlashProgress (written tr + length (next_block dev cmp (image tr)))
                       (length (image tr)))]"
  using assms
  by (auto simp: loop_body_def Let_def command_def emit_def record_obs_def processEvents_def
      split: if_splits option.splits prod.splits sum.splits)

lemma loop_body_Return:
  assumes "loop_body pend dev cmp enc blocks tr st = (Return, st')"
  shows "trace st' = trace st @ [Emit (FlashResult 1 msg_aborted), Call CloseSerial]"
  using assms
  by (auto simp: loop_body_def Let_def command_def emit_def record_obs_def processEvents_def
      split: if_splits option.splits prod.splits sum.splits)

lemma loop_body_Raise:
  assumes "loop_body pend dev cmp enc blocks tr st = (Raise e, st')"
  shows "trace st' = trace st @ [Emit (FlashResult 1 msg_aborted), Call CloseSerial]
       \<or> trace st' = trace st
       \<or> trace st' = trace st @ [Call (block_call cmp enc (next_block dev cmp (image tr)) (seq tr))]"
  using assms
  by (auto simp: loop_body_def Let_def command_def emit_def record_obs_def processEvents_def
      split: if_splits option.splits prod.splits sum.splits)

subsection \<open>A total-correctness rule for the loop\<close>

text \<open>
  With a positive block size every pass shortens the image, so the loop returns; what
  it returns satisfies \<open>Q\<close> when \<open>I\<close> holds at the start and is kept by every pass.
\<close>

lemma write_loop_rule:
  assumes fws: "0 < FLASH_WRITE_SIZE dev"
    and init: "I tr st"
    and nxt: "\<And>tr st tr' st'. I tr st \<Longrightarrow> image tr \<noteq> [] \<Longrightarrow>
                loop_body pend dev cmp enc blocks tr st = (Next tr', st') \<Longrightarrow> I tr' st'"
    and rais: "\<And>tr st e st'. I tr st \<Longrightarrow> image tr \<noteq> [] \<Longrightarrow>
                loop_body pend dev cmp enc blocks tr st = (Raise e, st') \<Longrightarrow> Q (Inl e, st')"
    and ret: "\<And>tr st st'. I tr st \<Longrightarrow> image tr \<noteq> [] \<Longrightarrow>
                loop_body pend dev cmp enc blocks tr st = (Return, st')
                \<Longrightarrow> Q (Inr (Aborted, tr), st')"
    and fin: "\<And>tr st. I tr st \<Longrightarrow> image tr = [] \<Longrightarrow> Q (Inr (Completed, tr), st)"
  shows "\<exists>r. write_loop pend dev cmp enc blocks tr st = Some r \<and> Q r"
  using init
proof (induction "length (image tr)" arbitrary: tr st rule: less_induct)
  case less
  show ?case
  proof (cases "image tr = []")
    case True
    with fin[OF less.prems] show ?thesis
      by (subst write_loop.simps) simp
  next
    case False
    obtain s st' where lb: "loop_body pend dev cmp enc blocks tr st = (s, st')"
      by (cases "loop_body pend dev cmp enc blocks tr st") auto
    show ?thesis
    proof (cases s)
      case (Raise e)
      with rais[OF less.prems False] lb False show ?thesis
        by (subst write_loop.simps) simp
    next
      case Return
      with ret[OF less.prems False] lb False show ?thesis
        by (subst write_loop.simps) simp
    next
      case (Next tr')
      with lb have lb': "loop_body pend dev cmp enc blocks tr st = (Next tr', st')" by simp
      from loop_body_Next[OF lb'] have "image tr' = drop (FLASH_WRITE_SIZE dev) (image tr)"
        by simp
      with False fws have "length (image tr') < length (image tr)" by simp
      moreover have "I tr' st'" by (rule nxt[OF less.prems False lb'])
      ultimately have "\<exists>r. write_loop pend dev cmp enc blocks tr' st' = Some r \<and> Q r"
        by (rule less.hyps)
      with lb' False show ?thesis
        by (subst write_loop.simps) simp
    qed
  qed
qed

subsection \<open>Traces and block sizes\<close>

lemma progress_append: "progress (xs @ ys) = progress xs @ progress ys"
  by (induction xs rule: progress.induct) simp_all

lemma block_writes_append: "block_writes (xs @ ys) = block_writes xs @ block_writes ys"
  by (induction xs rule: block_writes.induct) simp_all

lemma round_up_step:
  fixes b n :: nat
  assumes "0 < b" "0 < n"
  shows "b + ((n - b + b - 1) div b) * b = ((n + b - 1) div b) * b"
proof (cases "n \<le> b")
  case True
  with assms have "(n + b - 1) div b = 1"
    by (simp add: div_nat_eqI)
  moreover from True assms have "(n - b + b - 1) div b = 0" by simp
  ultimately show ?thesis by simp
next
  case False
  then have "n + b - 1 = (n - b + b - 1) + b" by simp
  then have "(n + b - 1) div b = (n - b + b - 1) div b + 1"
    using assms by (metis div_add_self2 less_numeral_extra(3))
  then show ?thesis by simp
qed

lemma length_next_block_plain: "length (next_block dev False img) = FLASH_WRITE_SIZE dev"
  by (simp add: next_block_def Let_def)

lemma next_block_compressed: "next_block dev True img = take (FLASH_WRITE_SIZE dev) img"
  by (simp add: next_block_def Let_def)

lemma sent_size_step:
  assumes "0 < FLASH_WRITE_SIZE dev" "img \<noteq> []"
  shows "length (next_block dev cmp img)
           + sent_size dev cmp (length (drop (FLASH_WRITE_SIZE dev) img))
         = sent_size dev cmp (length img)"
proof (cases cmp)
  case True
  then show ?thesis by (simp add: sent_size_def next_block_compressed)
next
  case False
  from assms have "0 < length img" by simp
  from round_up_step[OF assms(1) this] False show ?thesis
    by (simp add: sent_size_def length_next_block_plain)
qed

lemma block_call_expected:
  assumes "image tr = drop (seq tr * FLASH_WRITE_SIZE dev) img"
  shows "block_call cmp enc (next_block dev cmp (image tr)) (seq tr)
         = expected_block dev cmp enc img (seq tr)"
  using assms by (simp add: block_call_def next_block_def expected_block_def chunk_def Let_def)

lemma length_expected_block_plain:
  "length (block_bytes (expected_block dev False enc img s)) = FLASH_WRITE_SIZE dev"
  by (simp add: expected_block_def chunk_def)

subsection \<open>Compression flag\<close>

text \<open>
  Claim C8. After line 99 the truth value of \<^verbatim>\<open>args.compress\<close>, which decides between
  the compressed and the plain transfer, is the forced value when \<^verbatim>\<open>compress\<close> was set,
  false when \<^verbatim>\<open>no_compress\<close> was set, and otherwise true exactly when \<^verbatim>\<open>no_stub\<close> is
  not set.
\<close>

theorem effective_compress:
  "truthy (compress (resolve_compress args)) =
     (case compress args of
        Some forced \<Rightarrow> forced
      | None \<Rightarrow> if no_compress args then False else \<not> no_stub args)"
  by (cases "compress args") (simp_all add: resolve_compress_def truthy_def)

subsection \<open>Padding\<close>






subsection \<open>The image list of a job\<close>

text \<open>
  Claim C10. \<^verbatim>\<open>write_flash\<close> either fails while the flash size is configured, or enters
  \<^verbatim>\<open>_write_flash\<close> with an image list that is the single pair of address 0 and the
  firmware body.
\<close>

theorem single_image_at_zero:
  "case configure_flash_size l dev (write_flash_args fw) st of
     (Inl e, st1) \<Rightarrow> write_flash l pend dev fw st = Some (Inl e, st1)
   | (Inr args, st1) \<Rightarrow>
       addr_filename args = [(0, body fw)]
       \<and> write_flash l pend dev fw st = underscore_write_flash l pend dev args st1"
proof -
  have a: "addr_filename (write_flash_args fw) = [(0, body fw)]"
    by (simp add: write_flash_args_def set_body_def Args_init_def)
  have b: "\<And>args st1. configure_flash_size l dev (write_flash_args fw) st = (Inr args, st1)
      \<Longrightarrow> addr_filename args = addr_filename (write_flash_args fw)"
    by (auto simp: configure_flash_size_def Let_def split: prod.splits sum.splits if_splits)
  show ?thesis
    using a b by (auto simp: write_flash_def split: prod.splits sum.splits)
qed

subsection \<open>Size check\<close>

lemma check_fit_oversize:
  assumes "(address, argfile) \<in> set images" "flash_end < address + int (length argfile)"
  shows "check_fit flash_end images = Inl (NameError ''FatalError'')"
  using assms by (induction flash_end images rule: check_fit.induct) auto

lemma resolve_compress_keeps [simp]:
  "flash_size (resolve_compress args) = flash_size args"
  "addr_filename (resolve_compress args) = addr_filename args"
  by (simp_all add: resolve_compress_def)

text \<open>
  What the size check does, for every input: unless \<^verbatim>\<open>flash_size\<close> is \<^verbatim>\<open>keep\<close>, an image
  list with an image whose address plus payload length exceeds the flash capacity makes
  \<^verbatim>\<open>_write_flash\<close> raise at line 108 with the flasher state untouched, so that no command
  has been sent to the device; with \<^verbatim>\<open>keep\<close> the check is skipped and the transfer
  starts at once. The exception is the \<open>NameError\<close> of the unbound name \<^verbatim>\<open>FatalError\<close>.
\<close>

lemma size_check_outcome:
  "(flash_size args \<noteq> ''keep''
      \<and> flash_size_bytes l (flash_size args) = Inr flash_end
      \<and> (address, argfile) \<in> set (addr_filename args)
      \<and> flash_end < address + int (length argfile)
     \<longrightarrow> underscore_write_flash l pend dev args st = Some (Inl (NameError ''FatalError''), st))
   \<and> (flash_size args = ''keep''
     \<longrightarrow> underscore_write_flash l pend dev args st
           = write_all l pend dev (resolve_compress args) st)"
  by (auto simp: underscore_write_flash_def verify_fit_def Let_def check_fit_oversize)

text \<open>The trace of a job whose firmware is one byte larger than the 1 MB flash.\<close>

lemma oversize_trace:
  "begin_flash (host stub4) never fw_big idle
     = Some (Inl (NameError ''FatalError''),
         \<lparr>is_abort = False, polls = 0,
          trace = [Call (DetectChip ''COM3'' FLASH_BAUD), Call RunStub, Call DetectFlashSize,
                   Call (FlashSetParameters 1048576)]\<rparr>)"
  by (simp add: begin_flash_def host_def fw_big_def idle_def record_obs_def write_flash_def
      configure_flash_size_def write_flash_args_def set_body_def Args_init_def command_def
      stub4_def size_table_def underscore_write_flash_def resolve_compress_def verify_fit_def
      Let_def)

text \<open>
  Claim C5 fails on the code in how the job fails. An image that ends three bytes past
  a 1 MB flash stops \<^verbatim>\<open>_write_flash\<close> before any command is sent, and so does a firmware
  of 1 MB and one byte given to \<^verbatim>\<open>begin_flash\<close>, but what is raised is a \<open>NameError\<close>:
  line 20 does not import \<^verbatim>\<open>FatalError\<close>, so the exception written at line 108, with its
  text about the file that does not fit, is never built.
\<close>

theorem oversize_raises_name_error:
  "underscore_write_flash (host stub4) never stub4 edge_args idle
     = Some (Inl (NameError ''FatalError''), idle)
   \<and> (\<forall>msg st. underscore_write_flash (host stub4) never stub4 edge_args idle
          \<noteq> Some (Inl (FatalError msg), st))
   \<and> begin_flash (host stub4) never fw_big idle
       = Some (Inl (NameError ''FatalError''),
           \<lparr>is_abort = False, polls = 0,
            trace = [Call (DetectChip ''COM3'' FLASH_BAUD), Call RunStub, Call DetectFlashSize,
                     Call (FlashSetParameters 1048576)]\<rparr>)"
proof -
  have "underscore_write_flash (host stub4) never stub4 edge_args idle
     = Some (Inl (NameError ''FatalError''), idle)"
    using size_check_outcome[of edge_args "host stub4" 1048576 1048575 "[1, 2, 3, 4]"
        never stub4 idle]
    by (simp add: edge_args_def set_body_def Args_init_def host_def size_table_def)
  then show ?thesis using oversize_trace by simp
qed

subsection \<open>The counter of written bytes\<close>

text \<open>Four bytes sent without compression in 8-byte blocks.\<close>

lemma short_plain_transfer:
  "write_loop never stub8 False False 1 \<lparr>image = [1, 2, 3, 4], seq = 0, written = 0\<rparr> idle
     = Some (Inr (Completed, \<lparr>image = [], seq = 1, written = 8\<rparr>),
             \<lparr>is_abort = False, polls = 1,
              trace = [Call (FlashBlock [1, 2, 3, 4, 0xFF, 0xFF, 0xFF, 0xFF] 0),
                       Emit (FlashProgress 8 4)]\<rparr>)"
  by code_simp

text \<open>
  Claim C4 as stated fails: without compression the last block is sent padded to the
  block size and the counter adds the padded length. Four bytes in 8-byte blocks leave
  the counter at 8, and \<^verbatim>\<open>_write_flash\<close> reports 8 bytes written of 4.
\<close>

theorem written_exceeds_total:
  "write_loop never stub8 False False 1 \<lparr>image = [1, 2, 3, 4], seq = 0, written = 0\<rparr> idle
     = Some (Inr (Completed, \<lparr>image = [], seq = 1, written = 8\<rparr>),
             \<lparr>is_abort = False, polls = 1,
              trace = [Call (FlashBlock [1, 2, 3, 4, 0xFF, 0xFF, 0xFF, 0xFF] 0),
                       Emit (FlashProgress 8 4)]\<rparr>)
   \<and> \<not> written \<lparr>image = [], seq = 1, written = 8\<rparr> \<le> length [1, 2, 3, 4 :: byte]
   \<and> map_option (\<lambda>(r, st). (r, progress (trace st)))
         (underscore_write_flash (host stub8) never stub8 (set_body plain_args 0 [1, 2, 3, 4]) idle)
       = Some (Inr (), [(8, 4)])"
  apply (intro conjI)
  subgoal by (rule short_plain_transfer)
  subgoal by simp
  subgoal by code_simp
  done

text \<open>
  Claim C4, amended. With a positive block size the loop returns; the values of
  \<^verbatim>\<open>written\<close>, which are the first arguments of its progress signals, never decrease and
  never exceed the number of bytes to send: the transfer length when compressed, the
  transfer length rounded up to whole blocks otherwise. The same bound holds for the
  counter when the loop is left.
\<close>

theorem written_monotone_bounded:
  assumes fws: "0 < FLASH_WRITE_SIZE dev"
  shows "\<exists>r st'. write_loop pend dev cmp enc blocks \<lparr>image = img, seq = 0, written = 0\<rparr> st
                    = Some (r, st')
           \<and> (\<exists>new. trace st' = trace st @ new
                 \<and> sorted (map fst (progress new))
                 \<and> (\<forall>w\<in>set (map fst (progress new)). w \<le> sent_size dev cmp (length img)))
           \<and> (\<forall>x tr'. r = Inr (x, tr') \<longrightarrow> written tr' \<le> sent_size dev cmp (length img))"
proof -
  let ?B = "sent_size dev cmp (length img)"
  let ?I = "\<lambda>tr' st'. (\<exists>new. trace st' = trace st @ new
                 \<and> sorted (map fst (progress new))
                 \<and> (\<forall>w\<in>set (map fst (progress new)). w \<le> written tr'))
              \<and> written tr' + sent_size dev cmp (length (image tr')) = ?B"
  let ?Q = "\<lambda>(r, st'). (\<exists>new. trace st' = trace st @ new
                 \<and> sorted (map fst (progress new))
                 \<and> (\<forall>w\<in>set (map fst (progress new)). w \<le> ?B))
              \<and> (\<forall>x tr'. r = Inr (x, tr') \<longrightarrow> written tr' \<le> ?B)"
  have "\<exists>r. write_loop pend dev cmp enc blocks \<lparr>image = img, seq = 0, written = 0\<rparr> st = Some r
             \<and> ?Q r"
  proof (rule write_loop_rule[where I = ?I and Q = ?Q, OF fws])
    show "?I \<lparr>image = img, seq = 0, written = 0\<rparr> st" by simp
  next
    fix tr s tr' s'
    assume inv: "?I tr s" and ne: "image tr \<noteq> []"
      and lb: "loop_body pend dev cmp enc blocks tr s = (Next tr', s')"
    from inv obtain new where new: "trace s = trace st @ new"
      "sorted (map fst (progress new))" "\<forall>w\<in>set (map fst (progress new)). w \<le> written tr"
      and sz: "written tr + sent_size dev cmp (length (image tr)) = ?B" by blast
    note nb = loop_body_Next[OF lb]
    let ?w = "written tr + length (next_block dev cmp (image tr))"
    from nb have tr': "image tr' = drop (FLASH_WRITE_SIZE dev) (image tr)" "written tr' = ?w"
      by simp_all
    from nb new(1) have "trace s' = trace st @ (new @
        [Call (block_call cmp enc (next_block dev cmp (image tr)) (seq tr)),
         Emit (FlashProgress ?w (length (image tr)))])" by simp
    moreover have "map fst (progress (new @
        [Call (block_call cmp enc (next_block dev cmp (image tr)) (seq tr)),
         Emit (FlashProgress ?w (length (image tr)))])) = map fst (progress new) @ [?w]"
      by (simp add: progress_append)
    moreover from new(2,3) have "sorted (map fst (progress new) @ [?w])"
      by (auto simp: sorted_append)
    moreover from new(3) have "\<forall>w\<in>set (map fst (progress new) @ [?w]). w \<le> ?w" by auto
    moreover from sent_size_step[OF fws ne, of cmp] sz tr'
    have "written tr' + sent_size dev cmp (length (image tr')) = ?B" by simp
    ultimately show "?I tr' s'" using tr'(2) by metis
  next
    fix tr s e s'
    assume inv: "?I tr s" and ne: "image tr \<noteq> []"
      and lb: "loop_body pend dev cmp enc blocks tr s = (Raise e, s')"
    from inv obtain new where new: "trace s = trace st @ new"
      "sorted (map fst (progress new))" "\<forall>w\<in>set (map fst (progress new)). w \<le> written tr"
      and sz: "written tr + sent_size dev cmp (length (image tr)) = ?B" by blast
    from sz have le: "written tr \<le> ?B" by simp
    from loop_body_Raise[OF lb] obtain ext where ext: "trace s' = trace s @ ext" "progress ext = []"
      by (auto simp: block_call_def)
    from ext new(1) have "trace s' = trace st @ (new @ ext)" by simp
    moreover from ext(2) have "progress (new @ ext) = progress new" by (simp add: progress_append)
    ultimately show "?Q (Inl e, s')" using new(2,3) le by force
  next
    fix tr s s'
    assume inv: "?I tr s" and ne: "image tr \<noteq> []"
      and lb: "loop_body pend dev cmp enc blocks tr s = (Return, s')"
    from inv obtain new where new: "trace s = trace st @ new"
      "sorted (map fst (progress new))" "\<forall>w\<in>set (map fst (progress new)). w \<le> written tr"
      and sz: "written tr + sent_size dev cmp (length (image tr)) = ?B" by blast
    from sz have le: "written tr \<le> ?B" by simp
    from loop_body_Return[OF lb] new(1)
    have "trace s' = trace st @ (new @ [Emit (FlashResult 1 msg_aborted), Call CloseSerial])"
      by simp
    moreover have "progress (new @ [Emit (FlashResult 1 msg_aborted), Call CloseSerial])
        = progress new" by (simp add: progress_append)
    ultimately show "?Q (Inr (Aborted, tr), s')" using new(2,3) le by force
  next
    fix tr s
    assume inv: "?I tr s" and "image tr = []"
    from inv obtain new where new: "trace s = trace st @ new"
      "sorted (map fst (progress new))" "\<forall>w\<in>set (map fst (progress new)). w \<le> written tr"
      and sz: "written tr + sent_size dev cmp (length (image tr)) = ?B" by blast
    from sz have le: "written tr \<le> ?B" by simp
    show "?Q (Inr (Completed, tr), s)" using new le by force
  qed
  then show ?thesis by auto
qed

theorem written_monotone_bounded_witness:
  "0 < FLASH_WRITE_SIZE stub8
   \<and> write_loop never stub8 False False 1 \<lparr>image = [1, 2, 3, 4], seq = 0, written = 0\<rparr> idle
       = Some (Inr (Completed, \<lparr>image = [], seq = 1, written = 8\<rparr>),
               \<lparr>is_abort = False, polls = 1,
                trace = [Call (FlashBlock [1, 2, 3, 4, 0xFF, 0xFF, 0xFF, 0xFF] 0),
                         Emit (FlashProgress 8 4)]\<rparr>)
   \<and> written \<lparr>image = [], seq = 1, written = 8\<rparr>
       \<le> sent_size stub8 False (length [1, 2, 3, 4 :: byte])
   \<and> sent_size stub8 False (length [1, 2, 3, 4 :: byte]) = 8
   \<and> sent_size stub8 True (length [1, 2, 3, 4 :: byte]) = 4"
proof -
  have h: "0 < FLASH_WRITE_SIZE stub8" by (simp add: stub8_def stub4_def)
  from written_monotone_bounded[OF h, of never False False 1 "[1, 2, 3, 4]" idle]
  obtain r st' where ev: "write_loop never stub8 False False 1
        \<lparr>image = [1, 2, 3, 4], seq = 0, written = 0\<rparr> idle = Some (r, st')"
    and le: "\<forall>x tr'. r = Inr (x, tr')
        \<longrightarrow> written tr' \<le> sent_size stub8 False (length [1, 2, 3, 4 :: byte])"
    by blast
  from ev short_plain_transfer
  have "r = Inr (Completed, \<lparr>image = [], seq = 1, written = 8\<rparr>)" by simp
  with le have "written \<lparr>image = [], seq = 1, written = 8\<rparr>
      \<le> sent_size stub8 False (length [1, 2, 3, 4 :: byte])" by blast
  moreover have "sent_size stub8 False (length [1, 2, 3, 4 :: byte]) = 8"
    "sent_size stub8 True (length [1, 2, 3, 4 :: byte]) = 4"
    by (simp_all add: sent_size_def stub8_def stub4_def)
  ultimately show ?thesis using h short_plain_transfer by blast
qed

subsection \<open>What the blocks carry\<close>

text \<open>
  Claim C9. With a positive block size the loop returns, and the block writes it has sent
  are, in order, those of slices 0, 1, ... of the image: without compression each slice
  is filled up to the block size with 0xFF bytes and sent by the plain or the encrypted
  block write, so each of these carries exactly \<^verbatim>\<open>FLASH_WRITE_SIZE\<close> bytes; with
  compression each slice is sent as it is. When the loop completes, the slices sent
  cover the image.
\<close>

theorem blocks_padded_to_block_size:
  assumes fws: "0 < FLASH_WRITE_SIZE dev"
  shows "\<exists>r st'. write_loop pend dev cmp enc blocks \<lparr>image = img, seq = 0, written = 0\<rparr> st
                    = Some (r, st')
           \<and> (\<exists>new n. trace st' = trace st @ new
                 \<and> block_writes new = map (expected_block dev cmp enc img) [0..<n]
                 \<and> (\<forall>k. k < n \<longrightarrow> k * FLASH_WRITE_SIZE dev < length img)
                 \<and> (\<forall>tr'. r = Inr (Completed, tr') \<longrightarrow> length img \<le> n * FLASH_WRITE_SIZE dev)
                 \<and> (\<not> cmp \<longrightarrow> (\<forall>c\<in>set (block_writes new).
                        length (block_bytes c) = FLASH_WRITE_SIZE dev)))"
proof -
  let ?F = "FLASH_WRITE_SIZE dev"
  let ?E = "expected_block dev cmp enc img"
  let ?I = "\<lambda>tr' st'. image tr' = drop (seq tr' * ?F) img
              \<and> (\<exists>new. trace st' = trace st @ new
                    \<and> block_writes new = map ?E [0..<seq tr']
                    \<and> (\<forall>k. k < seq tr' \<longrightarrow> k * ?F < length img))"
  let ?Q = "\<lambda>(r, st'). \<exists>new n. trace st' = trace st @ new
                 \<and> block_writes new = map ?E [0..<n]
                 \<and> (\<forall>k. k < n \<longrightarrow> k * ?F < length img)
                 \<and> (\<forall>tr'. r = Inr (Completed, tr') \<longrightarrow> length img \<le> n * ?F)"
  have "\<exists>r. write_loop pend dev cmp enc blocks \<lparr>image = img, seq = 0, written = 0\<rparr> st = Some r
             \<and> ?Q r"
  proof (rule write_loop_rule[where I = ?I and Q = ?Q, OF fws])
    show "?I \<lparr>image = img, seq = 0, written = 0\<rparr> st" by simp
  next
    fix tr s tr' s'
    assume inv: "?I tr s" and ne: "image tr \<noteq> []"
      and lb: "loop_body pend dev cmp enc blocks tr s = (Next tr', s')"
    from inv obtain new where im: "image tr = drop (seq tr * ?F) img"
      and new: "trace s = trace st @ new" "block_writes new = map ?E [0..<seq tr]"
        "\<forall>k. k < seq tr \<longrightarrow> k * ?F < length img" by blast
    note nb = loop_body_Next[OF lb]
    from nb have tr': "image tr' = drop ?F (image tr)" "seq tr' = Suc (seq tr)" by simp_all
    from im ne have lt: "seq tr * ?F < length img" by simp
    let ?ext = "[Call (?E (seq tr)),
                 Emit (FlashProgress (written tr + length (next_block dev cmp (image tr)))
                         (length (image tr)))]"
    from nb new(1) block_call_expected[OF im, of cmp enc]
    have t: "trace s' = trace st @ (new @ ?ext)" by simp
    have "is_block_write (?E (seq tr))" by (simp add: expected_block_def)
    then have bw: "block_writes (new @ ?ext) = map ?E [0..<seq tr']"
      using new(2) tr'(2) by (simp add: block_writes_append)
    from new(3) lt tr'(2) have all: "\<forall>k. k < seq tr' \<longrightarrow> k * ?F < length img"
      by (auto simp: less_Suc_eq)
    from tr' im have "image tr' = drop (seq tr' * ?F) img" by (simp add: add.commute)
    with t bw all show "?I tr' s'" by blast
  next
    fix tr s e s'
    assume inv: "?I tr s" and ne: "image tr \<noteq> []"
      and lb: "loop_body pend dev cmp enc blocks tr s = (Raise e, s')"
    from inv obtain new where im: "image tr = drop (seq tr * ?F) img"
      and new: "trace s = trace st @ new" "block_writes new = map ?E [0..<seq tr]"
        "\<forall>k. k < seq tr \<longrightarrow> k * ?F < length img" by blast
    from im ne have lt: "seq tr * ?F < length img" by simp
    have isb: "is_block_write (?E (seq tr))" by (simp add: expected_block_def)
    from loop_body_Raise[OF lb] block_call_expected[OF im, of cmp enc]
    consider (quiet) ext where "trace s' = trace s @ ext" "block_writes ext = []"
      | (sent) "trace s' = trace s @ [Call (?E (seq tr))]"
      by fastforce
    then show "?Q (Inl e, s')"
    proof cases
      case quiet
      with new(1) have "trace s' = trace st @ (new @ ext)"
        "block_writes (new @ ext) = block_writes new" by (simp_all add: block_writes_append)
      with new(2,3) show ?thesis by force
    next
      case sent
      with new(1) have t: "trace s' = trace st @ (new @ [Call (?E (seq tr))])" by simp
      from isb new(2) have "block_writes (new @ [Call (?E (seq tr))]) = map ?E [0..<Suc (seq tr)]"
        by (simp add: block_writes_append)
      moreover from new(3) lt have "\<forall>k. k < Suc (seq tr) \<longrightarrow> k * ?F < length img"
        by (auto simp: less_Suc_eq)
      moreover have "\<forall>tr'. (Inl e :: exc + exit \<times> transfer) = Inr (Completed, tr')
          \<longrightarrow> length img \<le> Suc (seq tr) * ?F" by simp
      ultimately show ?thesis using t unfolding prod.case by blast
    qed
  next
    fix tr s s'
    assume inv: "?I tr s" and ne: "image tr \<noteq> []"
      and lb: "loop_body pend dev cmp enc blocks tr s = (Return, s')"
    from inv obtain new where new: "trace s = trace st @ new"
      "block_writes new = map ?E [0..<seq tr]" "\<forall>k. k < seq tr \<longrightarrow> k * ?F < length img" by blast
    from loop_body_Return[OF lb] new(1)
    have "trace s' = trace st @ (new @ [Emit (FlashResult 1 msg_aborted), Call CloseSerial])"
      by simp
    moreover have "block_writes (new @ [Emit (FlashResult 1 msg_aborted), Call CloseSerial])
        = block_writes new" by (simp add: block_writes_append)
    ultimately show "?Q (Inr (Aborted, tr), s')" using new(2,3) by force
  next
    fix tr s
    assume inv: "?I tr s" and e: "image tr = []"
    from inv obtain new where im: "image tr = drop (seq tr * ?F) img"
      and new: "trace s = trace st @ new" "block_writes new = map ?E [0..<seq tr]"
        "\<forall>k. k < seq tr \<longrightarrow> k * ?F < length img" by blast
    from im e have "length img \<le> seq tr * ?F" by simp
    with new show "?Q (Inr (Completed, tr), s)" by force
  qed
  then obtain r st' new n where r: "write_loop pend dev cmp enc blocks
        \<lparr>image = img, seq = 0, written = 0\<rparr> st = Some (r, st')"
    and q: "trace st' = trace st @ new" "block_writes new = map ?E [0..<n]"
      "\<forall>k. k < n \<longrightarrow> k * ?F < length img"
      "\<forall>tr'. r = Inr (Completed, tr') \<longrightarrow> length img \<le> n * ?F"
    by auto
  have "\<not> cmp \<longrightarrow> (\<forall>c\<in>set (block_writes new). length (block_bytes c) = ?F)"
    using q(2) by (auto simp: length_expected_block_plain)
  with r q show ?thesis by blast
qed


theorem blocks_padded_to_block_size_witness:
  "0 < FLASH_WRITE_SIZE stub8
   \<and> write_loop never stub8 False False 1 \<lparr>image = [1, 2, 3, 4], seq = 0, written = 0\<rparr> idle
       = Some (Inr (Completed, \<lparr>image = [], seq = 1, written = 8\<rparr>),
               \<lparr>is_abort = False, polls = 1,
                trace = [Call (FlashBlock [1, 2, 3, 4, 0xFF, 0xFF, 0xFF, 0xFF] 0),
                         Emit (FlashProgress 8 4)]\<rparr>)
   \<and> length (block_bytes (FlashBlock [1, 2, 3, 4, 0xFF, 0xFF, 0xFF, 0xFF] 0))
       = FLASH_WRITE_SIZE stub8
   \<and> expected_block stub8 False False [1, 2, 3, 4] 0
       = FlashBlock [1, 2, 3, 4, 0xFF, 0xFF, 0xFF, 0xFF] 0
   \<and> expected_block stub8 True False [1, 2, 3, 4] 0 = FlashDeflBlock [1, 2, 3, 4] 0"
proof -
  have h: "0 < FLASH_WRITE_SIZE stub8" by (simp add: stub8_def stub4_def)
  from blocks_padded_to_block_size[OF h, of never False False 1 "[1, 2, 3, 4]" idle]
  obtain r st' new where ev: "write_loop never stub8 False False 1
        \<lparr>image = [1, 2, 3, 4], seq = 0, written = 0\<rparr> idle = Some (r, st')"
    and tr: "trace st' = trace idle @ new"
    and len: "\<forall>c\<in>set (block_writes new). length (block_bytes c) = FLASH_WRITE_SIZE stub8"
    by auto
  from ev short_plain_transfer tr
  have "new = [Call (FlashBlock [1, 2, 3, 4, 0xFF, 0xFF, 0xFF, 0xFF] 0),
               Emit (FlashProgress 8 4)]"
    by (simp add: idle_def)
  with len have "length (block_bytes (FlashBlock [1, 2, 3, 4, 0xFF, 0xFF, 0xFF, 0xFF] 0))
      = FLASH_WRITE_SIZE stub8" by simp
  moreover have "expected_block stub8 False False [1, 2, 3, 4] 0
          = FlashBlock [1, 2, 3, 4, 0xFF, 0xFF, 0xFF, 0xFF] 0"
    "expected_block stub8 True False [1, 2, 3, 4] 0 = FlashDeflBlock [1, 2, 3, 4] 0"
    by code_simp+
  ultimately show ?thesis using h short_plain_transfer by blast
qed

subsection \<open>Jobs that end badly\<close>

text \<open>
  Claim C1 fails on the code. An abort request arrives at the second pass of the loop:
  line 139 emits the failure result and line 141 returns from \<^verbatim>\<open>_write_flash\<close>, which
  \<^verbatim>\<open>begin_flash\<close> cannot tell from a completed transfer, so line 74 emits the success
  result after it. The last result of the job is success.
\<close>

theorem abort_then_success:
  "begin_flash (host stub4) at_second_poll fw8 idle
     = Some (Inr (),
         \<lparr>is_abort = True, polls = 2,
          trace = [Call (DetectChip ''COM3'' FLASH_BAUD), Call RunStub, Call DetectFlashSize,
                   Call (FlashSetParameters 1048576), Call (FlashDeflBegin 8 8 0),
                   Call (FlashDeflBlock [1, 2, 3, 4] 0), Emit (FlashProgress 4 8),
                   Emit (FlashResult 1 msg_aborted), Call CloseSerial,
                   Emit (FlashResult 0 msg_success), Call CloseSerial]\<rparr>)
   \<and> map_option (\<lambda>(r, st). results (trace st))
         (begin_flash (host stub4) at_second_poll fw8 idle)
       = Some [(1, msg_aborted), (0, msg_success)]"
  by code_simp

text \<open>
  The trace of a job on a device that reports another digest than the host computed.
\<close>

lemma mismatch_trace:
  "begin_flash (host stub4_wrong_md5) never fw8 idle
     = Some (Inl (NameError ''NotImplementedInROMError''),
         \<lparr>is_abort = False, polls = 2,
          trace = [Call (DetectChip ''COM3'' FLASH_BAUD), Call RunStub, Call DetectFlashSize,
                   Call (FlashSetParameters 1048576), Call (FlashDeflBegin 8 8 0),
                   Call (FlashDeflBlock [1, 2, 3, 4] 0), Emit (FlashProgress 4 8),
                   Call (FlashDeflBlock [5, 6, 7, 8] 1), Emit (FlashProgress 8 4),
                   Call (FlashMd5sum 0 8), Print ''File  md5: d0'', Print ''Flash md5: ff'',
                   Print ''MD5 of 0xFF is d0'']\<rparr>)"
  by code_simp

text \<open>
  Claim C2 fails on the code. \<^verbatim>\<open>write_flash\<close> is called outside the \<^verbatim>\<open>try\<close> block of
  \<^verbatim>\<open>begin_flash\<close>: an image larger than the flash, and a digest mismatch, each end the job
  with an exception and without any result signal.
\<close>

theorem failure_without_result_event:
  "map_option (\<lambda>(r, st). (r, results (trace st))) (begin_flash (host stub4) never fw_big idle)
     = Some (Inl (NameError ''FatalError''), [])
   \<and> map_option (\<lambda>(r, st). (r, results (trace st)))
         (begin_flash (host stub4_wrong_md5) never fw8 idle)
       = Some (Inl (NameError ''NotImplementedInROMError''), [])"
  by (simp add: oversize_trace mismatch_trace)

text \<open>
  What line 155 puts into the second argument of the progress signal: for every transfer,
  signal number \<open>k\<close> carries the length of the image less \<open>k\<close> blocks.
\<close>

lemma progress_carries_remaining:
  assumes fws: "0 < FLASH_WRITE_SIZE dev"
  shows "\<exists>r st'. write_loop pend dev cmp enc blocks \<lparr>image = img, seq = 0, written = 0\<rparr> st
                    = Some (r, st')
           \<and> (\<exists>new n. trace st' = trace st @ new
                 \<and> map snd (progress new)
                     = map (\<lambda>k. length img - k * FLASH_WRITE_SIZE dev) [0..<n])"
proof -
  let ?F = "FLASH_WRITE_SIZE dev"
  let ?rem = "\<lambda>k. length img - k * ?F"
  let ?I = "\<lambda>tr' st'. image tr' = drop (seq tr' * ?F) img
              \<and> (\<exists>new. trace st' = trace st @ new
                    \<and> map snd (progress new) = map ?rem [0..<seq tr'])"
  let ?Q = "\<lambda>(r, st'). \<exists>new n. trace st' = trace st @ new
                 \<and> map snd (progress new) = map ?rem [0..<n]"
  have "\<exists>r. write_loop pend dev cmp enc blocks \<lparr>image = img, seq = 0, written = 0\<rparr> st = Some r
             \<and> ?Q r"
  proof (rule write_loop_rule[where I = ?I and Q = ?Q, OF fws])
    show "?I \<lparr>image = img, seq = 0, written = 0\<rparr> st" by simp
  next
    fix tr s tr' s'
    assume inv: "?I tr s" and ne: "image tr \<noteq> []"
      and lb: "loop_body pend dev cmp enc blocks tr s = (Next tr', s')"
    from inv obtain new where im: "image tr = drop (seq tr * ?F) img"
      and new: "trace s = trace st @ new" "map snd (progress new) = map ?rem [0..<seq tr]"
      by blast
    note nb = loop_body_Next[OF lb]
    from nb have tr': "image tr' = drop ?F (image tr)" "seq tr' = Suc (seq tr)" by simp_all
    let ?ext = "[Call (block_call cmp enc (next_block dev cmp (image tr)) (seq tr)),
                 Emit (FlashProgress (written tr + length (next_block dev cmp (image tr)))
                         (length (image tr)))]"
    from nb new(1) have t: "trace s' = trace st @ (new @ ?ext)" by simp
    from im have "length (image tr) = ?rem (seq tr)" by simp
    with new(2) tr'(2) have p: "map snd (progress (new @ ?ext)) = map ?rem [0..<seq tr']"
      by (simp add: progress_append block_call_def)
    from tr' im have "image tr' = drop (seq tr' * ?F) img" by (simp add: add.commute)
    with t p show "?I tr' s'" by blast
  next
    fix tr s e s'
    assume inv: "?I tr s" and ne: "image tr \<noteq> []"
      and lb: "loop_body pend dev cmp enc blocks tr s = (Raise e, s')"
    from inv obtain new where new: "trace s = trace st @ new"
      "map snd (progress new) = map ?rem [0..<seq tr]" by blast
    from loop_body_Raise[OF lb] obtain ext where ext: "trace s' = trace s @ ext" "progress ext = []"
      by (auto simp: block_call_def)
    from ext new(1) have "trace s' = trace st @ (new @ ext)" by simp
    moreover from ext(2) have "progress (new @ ext) = progress new" by (simp add: progress_append)
    ultimately show "?Q (Inl e, s')" using new(2) unfolding prod.case by metis
  next
    fix tr s s'
    assume inv: "?I tr s" and ne: "image tr \<noteq> []"
      and lb: "loop_body pend dev cmp enc blocks tr s = (Return, s')"
    from inv obtain new where new: "trace s = trace st @ new"
      "map snd (progress new) = map ?rem [0..<seq tr]" by blast
    from loop_body_Return[OF lb] new(1)
    have "trace s' = trace st @ (new @ [Emit (FlashResult 1 msg_aborted), Call CloseSerial])"
      by simp
    moreover have "progress (new @ [Emit (FlashResult 1 msg_aborted), Call CloseSerial])
        = progress new" by (simp add: progress_append)
    ultimately show "?Q (Inr (Aborted, tr), s')" using new(2) unfolding prod.case by metis
  next
    fix tr s
    assume inv: "?I tr s" and "image tr = []"
    then show "?Q (Inr (Completed, tr), s)" unfolding prod.case by blast
  qed
  then show ?thesis by auto
qed

text \<open>
  Claim C3 fails on the code. Line 155 emits \<^verbatim>\<open>len(image)\<close>, the part of the image not
  yet sent, as the second argument: for a transfer of 8 bytes in two blocks the progress
  signals are (4, 8) and (8, 4), and the job succeeds.
\<close>

theorem progress_total_shrinks:
  "map_option (\<lambda>(r, st). (r, progress (trace st))) (begin_flash (host stub4) never fw8 idle)
     = Some (Inr (), [(4, 8), (8, 4)])"
  by code_simp

text \<open>
  Claim C6 fails on the code where the loader does not implement \<^verbatim>\<open>flash_md5sum\<close>: the
  name in \<^verbatim>\<open>except NotImplementedInROMError\<close> is unbound, so the job ends with a
  \<open>NameError\<close> instead of going on to the closing commands.
\<close>

theorem md5_unsupported_raises:
  "begin_flash (host stub4_no_md5) never fw8 idle
     = Some (Inl (NameError ''NotImplementedInROMError''),
         \<lparr>is_abort = False, polls = 2,
          trace = [Call (DetectChip ''COM3'' FLASH_BAUD), Call RunStub, Call DetectFlashSize,
                   Call (FlashSetParameters 1048576), Call (FlashDeflBegin 8 8 0),
                   Call (FlashDeflBlock [1, 2, 3, 4] 0), Emit (FlashProgress 4 8),
                   Call (FlashDeflBlock [5, 6, 7, 8] 1), Emit (FlashProgress 8 4),
                   Call (FlashMd5sum 0 8)]\<rparr>)"
  by code_simp

end
